theory Spec2Isabelle
  imports Complex_Main "HOL-Library.Word"
begin

section \<open>JavaScript strings\<close>

text \<open>
  A JavaScript string is a sequence of UTF-16 code units and \<open>.length\<close> counts them,
  so a string is a list of 16-bit words. \<open>js\<close> writes an ASCII literal as such a list.
\<close>

type_synonym jsstring = "16 word list"

definition js :: "string \<Rightarrow> jsstring" where
  "js cs = map (\<lambda>c. of_nat (of_char c)) cs"

text \<open>
  \<open>String.prototype.trim\<close> removes WhiteSpace and LineTerminator code units from both
  ends: TAB, LF, VT, FF, CR, SP, NBSP, U+1680, U+2000..U+200A, U+2028, U+2029, U+202F,
  U+205F, U+3000 and U+FEFF.
\<close>

definition is_ws :: "16 word \<Rightarrow> bool" where
  "is_ws c = (c \<in> {0x09, 0x0A, 0x0B, 0x0C, 0x0D, 0x20, 0xA0, 0x1680,
                    0x2000, 0x2001, 0x2002, 0x2003, 0x2004, 0x2005, 0x2006, 0x2007,
                    0x2008, 0x2009, 0x200A, 0x2028, 0x2029, 0x202F, 0x205F, 0x3000,
                    0xFEFF})"

definition trim :: "jsstring \<Rightarrow> jsstring" where
  "trim s = rev (dropWhile is_ws (rev (dropWhile is_ws s)))"

section \<open>JavaScript values and JSON\<close>

datatype jsval =
    JUndefined
  | JNull
  | JBool bool
  | JNum jsstring
  | JStr jsstring
  | JDate int
  | JArr "jsval list"
  | JObj "(jsstring \<times> jsval) list"

datatype js_error = TypeError | SyntaxError | SecurityError | QuotaExceededError

subsection \<open>Date.prototype.toISOString\<close>

definition digit :: "int \<Rightarrow> 16 word" where
  "digit n = of_int (48 + n mod 10)"

definition pad2 :: "int \<Rightarrow> jsstring" where
  "pad2 n = [digit (n div 10), digit n]"

definition pad3 :: "int \<Rightarrow> jsstring" where
  "pad3 n = [digit (n div 100), digit (n div 10), digit n]"

definition pad4 :: "int \<Rightarrow> jsstring" where
  "pad4 n = [digit (n div 1000), digit (n div 100), digit (n div 10), digit n]"

definition pad6 :: "int \<Rightarrow> jsstring" where
  "pad6 n = [digit (n div 100000), digit (n div 10000), digit (n div 1000), digit (n div 100),
             digit (n div 10), digit n]"

definition civil_from_days :: "int \<Rightarrow> int \<times> int \<times> int" where
  "civil_from_days z0 =
     (let z = z0 + 719468;
          era = z div 146097;
          doe = z - era * 146097;
          yoe = (doe - doe div 1460 + doe div 36524 - doe div 146096) div 365;
          doy = doe - (365 * yoe + yoe div 4 - yoe div 100);
          mp = (5 * doy + 2) div 153;
          d = doy - (153 * mp + 2) div 5 + 1;
          m = (if mp < 10 then mp + 3 else mp - 9);
          y = yoe + era * 400 + (if m \<le> 2 then 1 else 0)
      in (y, m, d))"

definition toISOString :: "int \<Rightarrow> jsstring" where
  "toISOString t =
     (let (y, m, d) = civil_from_days (t div 86400000);
          ms = t mod 86400000;
          year = (if 0 \<le> y \<and> y \<le> 9999 then pad4 y
                  else (if y < 0 then 0x2D else 0x2B) # pad6 \<bar>y\<bar>)
      in year @ [0x2D] @ pad2 m @ [0x2D] @ pad2 d @ [0x54] @
         pad2 (ms div 3600000) @ [0x3A] @ pad2 (ms div 60000 mod 60) @ [0x3A] @
         pad2 (ms div 1000 mod 60) @ [0x2E] @ pad3 (ms mod 1000) @ [0x5A])"

definition valid_time :: "int \<Rightarrow> bool" where
  "valid_time t = (\<bar>t\<bar> \<le> 8640000000000000)"

subsection \<open>JSON.stringify\<close>

definition hex_char :: "nat \<Rightarrow> 16 word" where
  "hex_char d = (if d < 10 then of_nat (48 + d) else of_nat (87 + d))"

definition unicode_escape :: "16 word \<Rightarrow> jsstring" where
  "unicode_escape c =
     (let n = unat c
      in [0x5C, 0x75, hex_char (n div 4096 mod 16), hex_char (n div 256 mod 16),
          hex_char (n div 16 mod 16), hex_char (n mod 16)])"

definition is_lead :: "16 word \<Rightarrow> bool" where
  "is_lead c = (0xD800 \<le> c \<and> c \<le> 0xDBFF)"

definition is_trail :: "16 word \<Rightarrow> bool" where
  "is_trail c = (0xDC00 \<le> c \<and> c \<le> 0xDFFF)"

fun quote_chars :: "jsstring \<Rightarrow> jsstring" where
  "quote_chars [] = []"
| "quote_chars (c # cs) =
     (if c = 0x08 then [0x5C, 0x62] @ quote_chars cs
      else if c = 0x09 then [0x5C, 0x74] @ quote_chars cs
      else if c = 0x0A then [0x5C, 0x6E] @ quote_chars cs
      else if c = 0x0C then [0x5C, 0x66] @ quote_chars cs
      else if c = 0x0D then [0x5C, 0x72] @ quote_chars cs
      else if c = 0x22 then [0x5C, 0x22] @ quote_chars cs
      else if c = 0x5C then [0x5C, 0x5C] @ quote_chars cs
      else if c < 0x20 then unicode_escape c @ quote_chars cs
      else if is_lead c then
        (case cs of
           [] \<Rightarrow> unicode_escape c
         | d # ds \<Rightarrow> if is_trail d then c # d # quote_chars ds
                     else unicode_escape c @ quote_chars cs)
      else if is_trail c then unicode_escape c @ quote_chars cs
      else c # quote_chars cs)"

definition quote :: "jsstring \<Rightarrow> jsstring" where
  "quote s = [0x22] @ quote_chars s @ [0x22]"

fun join_comma :: "jsstring list \<Rightarrow> jsstring" where
  "join_comma [] = []"
| "join_comma [x] = x"
| "join_comma (x # y # ys) = x @ [0x2C] @ join_comma (y # ys)"

fun array_index :: "jsstring \<Rightarrow> int option" where
  "array_index [] = None"
| "array_index (c # cs) =
     (if \<not> list_all (\<lambda>d. 0x30 \<le> d \<and> d \<le> 0x39) (c # cs) then None
      else if c = 0x30 \<and> cs \<noteq> [] then None
      else (let n = foldl (\<lambda>a d. 10 * a + (uint d - 48)) 0 (c # cs)
            in if n < 4294967295 then Some n else None))"

definition own_property_order :: "(jsstring \<times> 'a) list \<Rightarrow> (jsstring \<times> 'a) list" where
  "own_property_order ps =
     sort_key (\<lambda>p. the (array_index (fst p))) (filter (\<lambda>p. array_index (fst p) \<noteq> None) ps) @
     filter (\<lambda>p. array_index (fst p) = None) ps"

fun serialize :: "jsval \<Rightarrow> jsstring option" where
  "serialize JUndefined = None"
| "serialize JNull = Some (js ''null'')"
| "serialize (JBool b) = Some (if b then js ''true'' else js ''false'')"
| "serialize (JNum l) = Some l"
| "serialize (JStr s) = Some (quote s)"
| "serialize (JDate t) = Some (if valid_time t then quote (toISOString t) else js ''null'')"
| "serialize (JArr xs) =
     Some ([0x5B] @ join_comma (map (\<lambda>x. case serialize x of None \<Rightarrow> js ''null'' | Some t \<Rightarrow> t) xs)
           @ [0x5D])"
| "serialize (JObj ps) =
     Some ([0x7B] @
           join_comma (concat (map (\<lambda>(k, t). case t of None \<Rightarrow> [] | Some u \<Rightarrow> [quote k @ [0x3A] @ u])
                                   (own_property_order (map (\<lambda>(k, v). (k, serialize v)) ps))))
           @ [0x7D])"

definition JSON_stringify :: "jsval \<Rightarrow> jsstring option" where
  "JSON_stringify v = serialize v"

subsection \<open>JSON.parse\<close>

datatype token =
    TLBracket | TRBracket | TLBrace | TRBrace | TComma | TColon
  | TString jsstring | TNumber jsstring | TTrue | TFalse | TNull

datatype num_state = NMinus | NZero | NInt | NDot | NFrac | NExp | NExpSign | NExpDigits

datatype lex_mode =
    LStart
  | LString jsstring
  | LEscape jsstring
  | LUnicode jsstring "nat list"
  | LNumber num_state jsstring
  | LLiteral token jsstring
  | LError

definition is_digit :: "16 word \<Rightarrow> bool" where
  "is_digit c = (0x30 \<le> c \<and> c \<le> 0x39)"

definition hex_value :: "16 word \<Rightarrow> nat option" where
  "hex_value c =
     (if 0x30 \<le> c \<and> c \<le> 0x39 then Some (unat c - 48)
      else if 0x61 \<le> c \<and> c \<le> 0x66 then Some (unat c - 87)
      else if 0x41 \<le> c \<and> c \<le> 0x46 then Some (unat c - 55)
      else None)"

definition num_accepting :: "num_state \<Rightarrow> bool" where
  "num_accepting st = (st \<in> {NZero, NInt, NFrac, NExpDigits})"

definition num_step :: "num_state \<Rightarrow> 16 word \<Rightarrow> num_state option" where
  "num_step st c =
     (case st of
        NMinus \<Rightarrow> if c = 0x30 then Some NZero else if is_digit c then Some NInt else None
      | NZero \<Rightarrow> if c = 0x2E then Some NDot else if c = 0x65 \<or> c = 0x45 then Some NExp else None
      | NInt \<Rightarrow> if is_digit c then Some NInt else if c = 0x2E then Some NDot
                else if c = 0x65 \<or> c = 0x45 then Some NExp else None
      | NDot \<Rightarrow> if is_digit c then Some NFrac else None
      | NFrac \<Rightarrow> if is_digit c then Some NFrac else if c = 0x65 \<or> c = 0x45 then Some NExp else None
      | NExp \<Rightarrow> if c = 0x2B \<or> c = 0x2D then Some NExpSign else if is_digit c then Some NExpDigits
                else None
      | NExpSign \<Rightarrow> if is_digit c then Some NExpDigits else None
      | NExpDigits \<Rightarrow> if is_digit c then Some NExpDigits else None)"

definition lex_start :: "token list \<Rightarrow> 16 word \<Rightarrow> token list \<times> lex_mode" where
  "lex_start ts c =
     (if c = 0x09 \<or> c = 0x0A \<or> c = 0x0D \<or> c = 0x20 then (ts, LStart)
      else if c = 0x5B then (ts @ [TLBracket], LStart)
      else if c = 0x5D then (ts @ [TRBracket], LStart)
      else if c = 0x7B then (ts @ [TLBrace], LStart)
      else if c = 0x7D then (ts @ [TRBrace], LStart)
      else if c = 0x2C then (ts @ [TComma], LStart)
      else if c = 0x3A then (ts @ [TColon], LStart)
      else if c = 0x22 then (ts, LString [])
      else if c = 0x2D then (ts, LNumber NMinus [c])
      else if c = 0x30 then (ts, LNumber NZero [c])
      else if is_digit c then (ts, LNumber NInt [c])
      else if c = 0x74 then (ts, LLiteral TTrue (js ''rue''))
      else if c = 0x66 then (ts, LLiteral TFalse (js ''alse''))
      else if c = 0x6E then (ts, LLiteral TNull (js ''ull''))
      else (ts, LError))"

definition lex_escape :: "16 word \<Rightarrow> 16 word option" where
  "lex_escape c =
     (if c = 0x22 \<or> c = 0x5C \<or> c = 0x2F then Some c
      else if c = 0x62 then Some 0x08
      else if c = 0x66 then Some 0x0C
      else if c = 0x6E then Some 0x0A
      else if c = 0x72 then Some 0x0D
      else if c = 0x74 then Some 0x09
      else None)"

fun lex_step :: "16 word \<Rightarrow> token list \<times> lex_mode \<Rightarrow> token list \<times> lex_mode" where
  "lex_step c (ts, LStart) = lex_start ts c"
| "lex_step c (ts, LString acc) =
     (if c = 0x22 then (ts @ [TString acc], LStart)
      else if c = 0x5C then (ts, LEscape acc)
      else if c < 0x20 then (ts, LError)
      else (ts, LString (acc @ [c])))"
| "lex_step c (ts, LEscape acc) =
     (if c = 0x75 then (ts, LUnicode acc [])
      else (case lex_escape c of None \<Rightarrow> (ts, LError) | Some d \<Rightarrow> (ts, LString (acc @ [d]))))"
| "lex_step c (ts, LUnicode acc ds) =
     (case hex_value c of
        None \<Rightarrow> (ts, LError)
      | Some d \<Rightarrow>
          if length ds = 3 then (ts, LString (acc @ [of_nat (foldl (\<lambda>a x. 16 * a + x) 0 (ds @ [d]))]))
          else (ts, LUnicode acc (ds @ [d])))"
| "lex_step c (ts, LNumber st l) =
     (case num_step st c of
        Some st' \<Rightarrow> (ts, LNumber st' (l @ [c]))
      | None \<Rightarrow> if num_accepting st then lex_start (ts @ [TNumber l]) c else (ts, LError))"
| "lex_step c (ts, LLiteral t rest) =
     (case rest of
        [] \<Rightarrow> (ts, LError)
      | x # xs \<Rightarrow> if c \<noteq> x then (ts, LError)
                  else if xs = [] then (ts @ [t], LStart) else (ts, LLiteral t xs))"
| "lex_step c (ts, LError) = (ts, LError)"

definition lex_finish :: "token list \<times> lex_mode \<Rightarrow> token list option" where
  "lex_finish st =
     (case st of
        (ts, LStart) \<Rightarrow> Some ts
      | (ts, LNumber n l) \<Rightarrow> if num_accepting n then Some (ts @ [TNumber l]) else None
      | _ \<Rightarrow> None)"

definition tokenize :: "jsstring \<Rightarrow> token list option" where
  "tokenize text = lex_finish (fold lex_step text ([], LStart))"

datatype frame = FArr "jsval list" | FObj "(jsstring \<times> jsval) list" | FKey "(jsstring \<times> jsval) list" jsstring

datatype parse_state =
    ExpValue "frame list"
  | ExpValueOrClose "frame list"
  | ExpKeyOrClose "frame list"
  | ExpKey "frame list"
  | ExpColon "frame list"
  | AfterValue "frame list"
  | Done jsval
  | Failed

fun obj_put :: "(jsstring \<times> jsval) list \<Rightarrow> jsstring \<Rightarrow> jsval \<Rightarrow> (jsstring \<times> jsval) list" where
  "obj_put [] k v = [(k, v)]"
| "obj_put (p # ps) k v = (if fst p = k then (k, v) # ps else p # obj_put ps k v)"

fun complete :: "jsval \<Rightarrow> frame list \<Rightarrow> parse_state" where
  "complete v [] = Done v"
| "complete v (FArr xs # st) = AfterValue (FArr (xs @ [v]) # st)"
| "complete v (FKey ps k # st) = AfterValue (FObj (obj_put ps k v) # st)"
| "complete v (FObj ps # st) = Failed"

fun parse_value :: "token \<Rightarrow> frame list \<Rightarrow> parse_state" where
  "parse_value TNull st = complete JNull st"
| "parse_value TTrue st = complete (JBool True) st"
| "parse_value TFalse st = complete (JBool False) st"
| "parse_value (TNumber l) st = complete (JNum l) st"
| "parse_value (TString s) st = complete (JStr s) st"
| "parse_value TLBracket st = ExpValueOrClose (FArr [] # st)"
| "parse_value TLBrace st = ExpKeyOrClose (FObj [] # st)"
| "parse_value _ st = Failed"

fun parse_step :: "token \<Rightarrow> parse_state \<Rightarrow> parse_state" where
  "parse_step t (ExpValue st) = parse_value t st"
| "parse_step t (ExpValueOrClose (FArr xs # st)) =
     (if t = TRBracket then complete (JArr xs) st else parse_value t (FArr xs # st))"
| "parse_step t (ExpKeyOrClose (FObj ps # st)) =
     (case t of TRBrace \<Rightarrow> complete (JObj ps) st
      | TString k \<Rightarrow> ExpColon (FKey ps k # st)
      | _ \<Rightarrow> Failed)"
| "parse_step t (ExpKey (FObj ps # st)) =
     (case t of TString k \<Rightarrow> ExpColon (FKey ps k # st) | _ \<Rightarrow> Failed)"
| "parse_step t (ExpColon st) = (if t = TColon then ExpValue st else Failed)"
| "parse_step t (AfterValue (FArr xs # st)) =
     (case t of TComma \<Rightarrow> ExpValue (FArr xs # st)
      | TRBracket \<Rightarrow> complete (JArr xs) st
      | _ \<Rightarrow> Failed)"
| "parse_step t (AfterValue (FObj ps # st)) =
     (case t of TComma \<Rightarrow> ExpKey (FObj ps # st)
      | TRBrace \<Rightarrow> complete (JObj ps) st
      | _ \<Rightarrow> Failed)"
| "parse_step t _ = Failed"

definition JSON_parse :: "jsstring \<Rightarrow> js_error + jsval" where
  "JSON_parse text =
     (case tokenize text of
        None \<Rightarrow> Inl SyntaxError
      | Some ts \<Rightarrow>
          (case fold parse_step ts (ExpValue []) of
             Done v \<Rightarrow> Inr v
           | _ \<Rightarrow> Inl SyntaxError))"

section \<open>Configuration\<close>

text \<open>
  \<open>window.GenieConfig\<close> of config.js, with the sections and fields the controller of
  genie.js reads. Numbers of the configuration are integers; \<open>messageLimit\<close> is a count.
\<close>

record delay_range =
  delay_min :: int
  delay_max :: int

record responses_config =
  replies :: "jsstring list"
  delay :: delay_range

record ui_config =
  maxMessageLength :: int
  autoScroll :: bool
  showTypingIndicator :: bool
  messageLimit :: nat

record features_config =
  enableMessageHistory :: bool
  enableKeyboardShortcuts :: bool

record development_config =
  enableLogging :: bool
  debugMode :: bool
  mockResponses :: bool

record messages_config =
  errorNetwork :: jsstring
  processing :: jsstring

record genie_config =
  messages :: messages_config
  responses :: responses_config
  ui :: ui_config
  features :: features_config
  development :: development_config

text \<open>The constant \<open>CONFIG.chat\<close> of app.js.\<close>

record chat_config =
  chat_maxMessageLength :: int
  typingDelay :: delay_range
  chat_responses :: "jsstring list"

section \<open>Response selection\<close>

text \<open>
  \<open>Math.random()\<close> is a parameter \<open>r\<close>, a real number with \<open>0 \<le> r < 1\<close>; products with
  it are exact here (the rounding of IEEE doubles is not modelled).

  \<open>xs[i]\<close> on an array is \<open>undefined\<close> outside \<open>0 \<le> i < xs.length\<close>: \<open>None\<close>.
\<close>

definition js_index :: "'a list \<Rightarrow> int \<Rightarrow> 'a option" where
  "js_index xs i = (if 0 \<le> i \<and> i < int (length xs) then Some (xs ! nat i) else None)"

text \<open>genie.js, \<open>getRandomDelay\<close>: \<open>Math.floor(Math.random() * (max - min + 1)) + min\<close>.\<close>

definition getRandomDelay :: "genie_config \<Rightarrow> real \<Rightarrow> int" where
  "getRandomDelay cfg r =
     (let mn = delay_min (delay (responses cfg)); mx = delay_max (delay (responses cfg))
      in \<lfloor>r * of_int (mx - mn + 1)\<rfloor> + mn)"

text \<open>app.js, \<open>Utils.getRandomDelay\<close>.\<close>

definition Utils_getRandomDelay :: "chat_config \<Rightarrow> real \<Rightarrow> int" where
  "Utils_getRandomDelay chat r =
     (let mn = delay_min (typingDelay chat); mx = delay_max (typingDelay chat)
      in \<lfloor>r * of_int (mx - mn + 1)\<rfloor> + mn)"

text \<open>
  genie.js, \<open>generateResponse\<close>: with \<open>mockResponses\<close> the reply is
  \<open>responses[Math.floor(Math.random() * responses.length)]\<close>, otherwise a fixed
  placeholder. The result is \<open>None\<close> where the array read is \<open>undefined\<close>.
\<close>

definition random_index :: "'a list \<Rightarrow> real \<Rightarrow> int" where
  "random_index xs r = \<lfloor>r * of_nat (length xs)\<rfloor>"

definition placeholder_reply :: jsstring where
  "placeholder_reply = js ''I'm not connected to the real genie API yet!''"

definition generateResponse :: "genie_config \<Rightarrow> real \<Rightarrow> jsstring option" where
  "generateResponse cfg r =
     (if mockResponses (development cfg)
      then (let rs = replies (responses cfg) in js_index rs (random_index rs r))
      else Some placeholder_reply)"

text \<open>app.js, \<open>Utils.getRandomResponse\<close>.\<close>

definition Utils_getRandomResponse :: "chat_config \<Rightarrow> real \<Rightarrow> jsstring option" where
  "Utils_getRandomResponse chat r =
     (let rs = chat_responses chat in js_index rs (random_index rs r))"

section \<open>Messages and arrays\<close>

datatype sender = User | Genie

definition sender_name :: "sender \<Rightarrow> jsstring" where
  "sender_name x = (case x of User \<Rightarrow> js ''user'' | Genie \<Rightarrow> js ''genie'')"

text \<open>
  The object literal \<open>{ text, sender, timestamp: new Date() }\<close> of \<open>addMessage\<close>; \<open>now\<close> is
  the time value that \<open>new Date()\<close> reads from the clock.
\<close>

definition new_message :: "jsval \<Rightarrow> sender \<Rightarrow> int \<Rightarrow> jsval" where
  "new_message text sender now =
     JObj [(js ''text'', text), (js ''sender'', JStr (sender_name sender)),
           (js ''timestamp'', JDate now)]"

text \<open>
  \<open>xs.slice(start)\<close> with one argument: a negative \<open>start\<close> counts from the end, and
  \<open>slice(-0)\<close> is \<open>slice(0)\<close>. Arrays and strings have \<open>slice\<close>, only arrays have \<open>push\<close>;
  calling either on another value is a TypeError.
\<close>

definition js_slice :: "'a list \<Rightarrow> int \<Rightarrow> 'a list" where
  "js_slice xs start =
     (let len = int (length xs);
          k = (if start < 0 then max (len + start) 0 else min start len)
      in drop (nat k) xs)"

definition slice :: "jsval \<Rightarrow> int \<Rightarrow> js_error + jsval" where
  "slice v start =
     (case v of
        JArr xs \<Rightarrow> Inr (JArr (js_slice xs start))
      | JStr s \<Rightarrow> Inr (JStr (js_slice s start))
      | _ \<Rightarrow> Inl TypeError)"

definition push :: "jsval \<Rightarrow> jsval \<Rightarrow> js_error + jsval" where
  "push v x = (case v of JArr xs \<Rightarrow> Inr (JArr (xs @ [x])) | _ \<Rightarrow> Inl TypeError)"

section \<open>localStorage\<close>

text \<open>
  The storage collaborator: a key-value store of strings whose access can be refused
  (SecurityError) and whose capacity is bounded (QuotaExceededError), the two failures of
  the persistent storage. \<open>calls\<close> records every \<open>getItem\<close> and \<open>setItem\<close> call made.
\<close>

datatype storage_call = GetItem jsstring | SetItem jsstring jsstring

record storage =
  accessible :: bool
  quota :: nat
  items :: "(jsstring \<times> jsstring) list"
  calls :: "storage_call list"

fun put :: "('k \<times> 'v) list \<Rightarrow> 'k \<Rightarrow> 'v \<Rightarrow> ('k \<times> 'v) list" where
  "put [] k v = [(k, v)]"
| "put (p # ps) k v = (if fst p = k then (k, v) # ps else p # put ps k v)"

definition stored_size :: "(jsstring \<times> jsstring) list \<Rightarrow> nat" where
  "stored_size kvs = sum_list (map (\<lambda>(k, v). length k + length v) kvs)"

definition getItem :: "jsstring \<Rightarrow> storage \<Rightarrow> (js_error + jsstring option) \<times> storage" where
  "getItem k st =
     (let st' = st\<lparr>calls := calls st @ [GetItem k]\<rparr>
      in if accessible st then (Inr (map_of (items st) k), st') else (Inl SecurityError, st'))"

definition setItem :: "jsstring \<Rightarrow> jsstring \<Rightarrow> storage \<Rightarrow> js_error option \<times> storage" where
  "setItem k v st =
     (let st' = st\<lparr>calls := calls st @ [SetItem k v]\<rparr>
      in if \<not> accessible st then (Some SecurityError, st')
         else if quota st < stored_size (put (items st) k v) then (Some QuotaExceededError, st')
         else (None, st'\<lparr>items := put (items st) k v\<rparr>))"

definition history_key :: jsstring where
  "history_key = js ''genie-message-history''"

section \<open>The controller of genie.js\<close>

text \<open>
  An element of the chat window: its identity, its class list and the text given to
  \<open>createMessageElement\<close>. The send button, animations, scrolling, focus and the
  screen-reader announcements are not part of the state.
\<close>

record element =
  eid :: nat
  classes :: "jsstring list"
  etext :: jsval

datatype validation_error = EmptyMessage | TooLong

text \<open>
  The fields of a \<open>GlobocorpGenie\<close> object and of the page it controls. \<open>alerts\<close> are the
  calls of \<open>showError\<close>, by the error they report; \<open>console\<close> the lines written by \<open>log\<close>
  and \<open>handleError\<close>; \<open>sleeping\<close> the delay of the timer that \<open>processGenieResponse\<close>
  awaits, if one is scheduled; \<open>pushed\<close> the sender and text of every successful
  \<open>messageHistory.push\<close>, in order (never read by the controller).
\<close>

record genie =
  config :: genie_config
  messageHistory :: jsval
  isProcessing :: bool
  chatWindow :: "element list"
  typingIndicator :: "element option"
  inputValue :: jsstring
  inputDisabled :: bool
  alerts :: "validation_error list"
  console :: "string list"
  localStorage :: storage
  sleeping :: "int option"
  next_id :: nat
  pushed :: "(sender \<times> jsval) list"

definition log_message :: "string \<Rightarrow> genie \<Rightarrow> genie" where
  "log_message line s =
     (if enableLogging (development (config s)) then s\<lparr>console := console s @ [line]\<rparr> else s)"

definition handleError :: "string \<Rightarrow> genie \<Rightarrow> genie" where
  "handleError line s =
     (let s1 = log_message (''Error: '' @ line) s
      in if debugMode (development (config s1)) then s1\<lparr>console := console s1 @ [line]\<rparr>
         else s1)"

definition showError :: "validation_error \<Rightarrow> genie \<Rightarrow> genie" where
  "showError e s = s\<lparr>alerts := alerts s @ [e]\<rparr>"

text \<open>\<open>validateMessage\<close>: \<open>!message\<close> holds of a string exactly when it is empty.\<close>

definition validateMessage :: "jsstring \<Rightarrow> genie \<Rightarrow> bool \<times> genie" where
  "validateMessage message s =
     (if message = [] then (False, showError EmptyMessage s)
      else if maxMessageLength (ui (config s)) < int (length message)
      then (False, showError TooLong s)
      else (True, s))"

definition has_class :: "jsstring \<Rightarrow> element \<Rightarrow> bool" where
  "has_class c e = (c \<in> set (classes e))"

definition createMessageElement :: "jsval \<Rightarrow> sender \<Rightarrow> genie \<Rightarrow> element \<times> genie" where
  "createMessageElement text sender s =
     (\<lparr>eid = next_id s, classes = [js ''message'', sender_name sender @ js ''-message''],
       etext = text\<rparr>,
      s\<lparr>next_id := Suc (next_id s)\<rparr>)"

definition showTypingIndicator_genie :: "genie \<Rightarrow> genie" where
  "showTypingIndicator_genie s =
     (let (el, s1) = createMessageElement (JStr (processing (messages (config s)))) Genie s;
          el' = el\<lparr>classes := classes el @ [js ''typing-indicator'']\<rparr>
      in s1\<lparr>typingIndicator := Some el', chatWindow := chatWindow s1 @ [el']\<rparr>)"

definition hideTypingIndicator :: "genie \<Rightarrow> genie" where
  "hideTypingIndicator s =
     (case typingIndicator s of
        None \<Rightarrow> s
      | Some el \<Rightarrow> s\<lparr>chatWindow := filter (\<lambda>e. eid e \<noteq> eid el) (chatWindow s),
                       typingIndicator := None\<rparr>)"

definition updateUIState :: "bool \<Rightarrow> genie \<Rightarrow> genie" where
  "updateUIState processing' s = s\<lparr>inputDisabled := processing'\<rparr>"

text \<open>
  \<open>enforceMessageLimit\<close>. \<open>counted\<close> is the selector \<open>.message:not(.typing-indicator)\<close>;
  \<open>remove_excess n\<close> is the loop over the first \<open>n\<close> selected elements, which removes those
  that are not the welcome message. \<open>messageLimit\<close> is a natural number, a count of
  messages.
\<close>

definition counted :: "element \<Rightarrow> bool" where
  "counted e = (has_class (js ''message'') e \<and> \<not> has_class (js ''typing-indicator'') e)"

fun remove_excess :: "nat \<Rightarrow> element list \<Rightarrow> element list" where
  "remove_excess 0 es = es"
| "remove_excess (Suc n) [] = []"
| "remove_excess (Suc n) (e # es) =
     (if counted e
      then (if has_class (js ''welcome-message'') e then e # remove_excess n es
            else remove_excess n es)
      else e # remove_excess (Suc n) es)"

definition enforceMessageLimit :: "genie \<Rightarrow> js_error option \<times> genie" where
  "enforceMessageLimit s =
     (let shown = filter counted (chatWindow s); limit = messageLimit (ui (config s))
      in if limit < length shown
         then (let excess = length shown - limit;
                   s1 = s\<lparr>chatWindow := remove_excess excess (chatWindow s)\<rparr>
               in case slice (messageHistory s1) (- int limit) of
                    Inl e \<Rightarrow> (Some e, s1)
                  | Inr h \<Rightarrow> (None, s1\<lparr>messageHistory := h\<rparr>))
         else (None, s))"

text \<open>
  \<open>saveMessageHistory\<close> and \<open>loadMessageHistory\<close>: every exception of the \<open>try\<close> block is
  caught and logged, so both return a state and nothing else.
\<close>

definition saveMessageHistory :: "genie \<Rightarrow> genie" where
  "saveMessageHistory s =
     (if \<not> enableMessageHistory (features (config s)) then s
      else (case slice (messageHistory s) (- 50) of
              Inl e \<Rightarrow> log_message ''Failed to save message history:'' s
            | Inr toStore \<Rightarrow>
                (case setItem history_key
                        (case JSON_stringify toStore of None \<Rightarrow> js ''undefined'' | Some t \<Rightarrow> t)
                        (localStorage s) of
                   (Some e, st) \<Rightarrow>
                     log_message ''Failed to save message history:'' (s\<lparr>localStorage := st\<rparr>)
                 | (None, st) \<Rightarrow> s\<lparr>localStorage := st\<rparr>)))"

definition loadMessageHistory :: "genie \<Rightarrow> genie" where
  "loadMessageHistory s =
     (if \<not> enableMessageHistory (features (config s)) then s
      else (case getItem history_key (localStorage s) of
              (Inl e, st) \<Rightarrow>
                log_message ''Failed to load message history:'' (s\<lparr>localStorage := st\<rparr>)
            | (Inr None, st) \<Rightarrow> s\<lparr>localStorage := st\<rparr>
            | (Inr (Some stored), st) \<Rightarrow>
                if stored = [] then s\<lparr>localStorage := st\<rparr>
                else (case JSON_parse stored of
                        Inl e \<Rightarrow>
                          log_message ''Failed to load message history:'' (s\<lparr>localStorage := st\<rparr>)
                      | Inr v \<Rightarrow>
                          log_message ''Message history loaded''
                            (s\<lparr>localStorage := st, messageHistory := v\<rparr>))))"

text \<open>
  \<open>addMessage\<close>: the element is appended to the chat window, then the message is pushed
  (a TypeError when \<open>messageHistory\<close> is not an array, which leaves the method), the limit
  is enforced and the history is saved when the feature is enabled.
\<close>

definition addMessage :: "jsval \<Rightarrow> sender \<Rightarrow> int \<Rightarrow> genie \<Rightarrow> js_error option \<times> genie" where
  "addMessage text sender now s =
     (let (el, s1) = createMessageElement text sender s;
          s2 = s1\<lparr>chatWindow := chatWindow s1 @ [el]\<rparr>
      in case push (messageHistory s2) (new_message text sender now) of
           Inl e \<Rightarrow> (Some e, s2)
         | Inr h \<Rightarrow>
             (case enforceMessageLimit
                     (s2\<lparr>messageHistory := h, pushed := pushed s2 @ [(sender, text)]\<rparr>) of
                (Some e, s3) \<Rightarrow> (Some e, s3)
              | (None, s3) \<Rightarrow>
                  (None, if enableMessageHistory (features (config s3))
                         then saveMessageHistory s3 else s3)))"

text \<open>
  \<open>handleSendMessage\<close> is asynchronous: it runs up to \<open>await this.sleep(delay)\<close> in
  \<open>processGenieResponse\<close>, and \<open>resume\<close> is the rest of both methods, run when the timer
  fires. \<open>send_failed\<close> is the \<open>catch\<close> block followed by the \<open>finally\<close> block; an exception
  of the \<open>catch\<close> block is the result. \<open>now\<close> and \<open>now'\<close> are the clock readings of the two
  \<open>addMessage\<close> calls, \<open>r\<close> the value of \<open>Math.random()\<close>.
\<close>

definition send_finally :: "genie \<Rightarrow> genie" where
  "send_finally s = updateUIState False (s\<lparr>isProcessing := False\<rparr>)"

definition send_failed :: "int \<Rightarrow> genie \<Rightarrow> js_error option \<times> genie" where
  "send_failed now' s =
     (let s1 = handleError ''Failed to send message'' s;
          (e, s2) = addMessage (JStr (errorNetwork (messages (config s1)))) Genie now' s1
      in (e, send_finally s2))"

definition handleSendMessage :: "int \<Rightarrow> int \<Rightarrow> real \<Rightarrow> genie \<Rightarrow> js_error option \<times> genie" where
  "handleSendMessage now now' r s =
     (let messageText = trim (inputValue s);
          (ok, s1) = validateMessage messageText s
      in if \<not> ok then (None, s1)
         else if isProcessing s1 then (None, s1)
         else (case addMessage (JStr messageText) User now
                      (updateUIState True (s1\<lparr>isProcessing := True\<rparr>)) of
                 (Some e, s2) \<Rightarrow> send_failed now' s2
               | (None, s2) \<Rightarrow>
                   (let s3 = s2\<lparr>inputValue := []\<rparr>;
                        s4 = (if showTypingIndicator (ui (config s3))
                              then showTypingIndicator_genie s3 else s3)
                    in (None, s4\<lparr>sleeping := Some (getRandomDelay (config s4) r)\<rparr>))))"

definition resume :: "int \<Rightarrow> int \<Rightarrow> real \<Rightarrow> genie \<Rightarrow> js_error option \<times> genie" where
  "resume now now' r s =
     (case sleeping s of
        None \<Rightarrow> (None, s)
      | Some d \<Rightarrow>
          (let s1 = hideTypingIndicator (s\<lparr>sleeping := None\<rparr>);
               response = (case generateResponse (config s1) r of
                             None \<Rightarrow> JUndefined | Some t \<Rightarrow> JStr t)
           in case addMessage response Genie now s1 of
                (Some e, s2) \<Rightarrow> send_failed now' s2
              | (None, s2) \<Rightarrow> (None, send_finally s2)))"

text \<open>
  The events of the page: the input field is edited, \<open>handleSendMessage\<close> is called (the
  form is submitted, or Ctrl+Enter is pressed anywhere in the document), the timer fires.
\<close>

datatype event = Input jsstring | Submit int int real | TimerFires int int real

fun step :: "event \<Rightarrow> genie \<Rightarrow> genie" where
  "step (Input v) s = s\<lparr>inputValue := v\<rparr>"
| "step (Submit now now' r) s = snd (handleSendMessage now now' r s)"
| "step (TimerFires now now' r) s = snd (resume now now' r s)"

definition run :: "event list \<Rightarrow> genie \<Rightarrow> genie" where
  "run es s = fold step es s"

text \<open>
  The constructor and \<open>init\<close>. The window supplies \<open>window.GenieConfig\<close> if config.js was
  loaded, the three required elements if the page has them (the children of the chat
  window, the form, the value of the input field) and the storage. Without a
  configuration the constructor returns before \<open>init\<close>; when a required element is
  missing \<open>cacheElements\<close> throws, \<open>init\<close> catches the error and nothing is bound or loaded.
\<close>

record page =
  chatWindowEl :: "element list option"
  messageFormEl :: bool
  messageInputEl :: "jsstring option"

record window =
  GenieConfig :: "genie_config option"
  document :: page
  window_localStorage :: storage

datatype controller = NotConfigured | InitFailed "string list" | Initialized genie

definition missingElements :: "page \<Rightarrow> string list" where
  "missingElements p =
     (if chatWindowEl p = None then [''chatWindow''] else []) @
     (if messageFormEl p then [] else [''messageForm'']) @
     (if messageInputEl p = None then [''messageInput''] else [])"

definition init :: "genie_config \<Rightarrow> window \<Rightarrow> controller" where
  "init cfg w =
     (case (chatWindowEl (document w), messageInputEl (document w)) of
        (Some children, Some v) \<Rightarrow>
          if messageFormEl (document w)
          then Initialized
                 (log_message ''initialized successfully''
                    (loadMessageHistory
                       \<lparr>config = cfg, messageHistory = JArr [], isProcessing = False,
                        chatWindow = children, typingIndicator = None, inputValue = v,
                        inputDisabled = False, alerts = [], console = [],
                        localStorage = window_localStorage w, sleeping = None,
                        next_id = Suc (fold max (map eid children) 0), pushed = []\<rparr>))
          else InitFailed (missingElements (document w))
      | _ \<Rightarrow> InitFailed (missingElements (document w)))"

definition constructor :: "window \<Rightarrow> controller" where
  "constructor w = (case GenieConfig w of None \<Rightarrow> NotConfigured | Some cfg \<Rightarrow> init cfg w)"

section \<open>The chat of app.js\<close>

text \<open>
  \<open>Utils.validateMessage\<close> returns \<open>{valid: true}\<close>, or \<open>{valid: false, error}\<close> with one of
  the two texts of \<open>CONFIG.chat.errorMessages\<close>, named here by the error it reports.
\<close>

datatype validation = Valid | Invalid validation_error

definition Utils_validateMessage :: "chat_config \<Rightarrow> jsstring \<Rightarrow> validation" where
  "Utils_validateMessage chat message =
     (if message = [] \<or> length (trim message) = 0 then Invalid EmptyMessage
      else if chat_maxMessageLength chat < int (length message) then Invalid TooLong
      else Valid)"

text \<open>
  The state of a \<open>GenieChat\<close> object with the input field of its page; \<open>shownErrors\<close> are
  the calls of \<open>showError\<close>. \<open>GenieChat_handleSendMessage\<close> is \<open>handleSendMessage\<close> up to its
  first suspension, the \<open>await\<close> of \<open>scrollToBottom\<close> in \<open>addUserMessage\<close>.
\<close>

record chat_message =
  mtype :: sender
  mcontent :: jsstring
  mtimestamp :: int

record genie_chat =
  messageCount :: nat
  chat_messages :: "chat_message list"
  isTyping :: bool
  isFirstMessage :: bool
  chat_inputValue :: jsstring
  chat_inputDisabled :: bool
  shownErrors :: "validation_error list"

definition addUserMessage :: "jsstring \<Rightarrow> int \<Rightarrow> genie_chat \<Rightarrow> genie_chat" where
  "addUserMessage message now s =
     s\<lparr>isFirstMessage := False, messageCount := Suc (messageCount s),
       chat_messages := chat_messages s @ [\<lparr>mtype = User, mcontent = message, mtimestamp = now\<rparr>]\<rparr>"

definition GenieChat_handleSendMessage :: "chat_config \<Rightarrow> int \<Rightarrow> genie_chat \<Rightarrow> genie_chat" where
  "GenieChat_handleSendMessage chat now s =
     (if isTyping s then s
      else (let message = trim (chat_inputValue s)
            in case Utils_validateMessage chat message of
                 Invalid e \<Rightarrow> s\<lparr>shownErrors := shownErrors s @ [e]\<rparr>
               | Valid \<Rightarrow> addUserMessage message now (s\<lparr>chat_inputDisabled := True\<rparr>)))"

text \<open>
  The continuation of \<open>handleSendMessage\<close> of app.js when the wait that \<open>addUserMessage\<close>
  awaits is over, up to the next suspension, the wait of the delay in
  \<open>simulateGenieResponse\<close>: the input field is cleared and \<open>isTyping\<close> is set (the typing
  indicator shown there is an element of the page and not part of this state).
\<close>

definition GenieChat_resume :: "genie_chat \<Rightarrow> genie_chat" where
  "GenieChat_resume s = s\<lparr>chat_inputValue := [], isTyping := True\<rparr>"

section \<open>Notions used by the properties\<close>

definition is_array :: "jsval \<Rightarrow> bool" where
  "is_array v = (case v of JArr xs \<Rightarrow> True | _ \<Rightarrow> False)"

text \<open>
  The element that \<open>createMessageElement\<close> builds in state \<open>s\<close>, and the chat window and the
  array of messages once \<open>addMessage\<close> has appended to both, before the limit is enforced.
\<close>

definition message_element :: "jsval \<Rightarrow> sender \<Rightarrow> genie \<Rightarrow> element" where
  "message_element text sender s =
     \<lparr>eid = next_id s, classes = [js ''message'', sender_name sender @ js ''-message''],
      etext = text\<rparr>"

definition over_limit :: "jsval \<Rightarrow> sender \<Rightarrow> genie \<Rightarrow> bool" where
  "over_limit text sender s =
     (messageLimit (ui (config s)) <
        length (filter counted (chatWindow s @ [message_element text sender s])))"

text \<open>
  The order of pushes: a message of the user, then the reply of the genie to it, then the
  next message of the user; the last message of the user may still wait for its reply.
\<close>

fun ordered :: "sender list \<Rightarrow> bool" where
  "ordered [] = True"
| "ordered [User] = True"
| "ordered (User # Genie # xs) = ordered xs"
| "ordered _ = False"

text \<open>
  The invariant of the controller: the pushes are ordered, a message of the user waits for
  its reply exactly while \<open>isProcessing\<close> is set, which is exactly while the timer is
  scheduled, and then \<open>messageHistory\<close> is an array.
\<close>

definition single_flight :: "genie \<Rightarrow> bool" where
  "single_flight s =
     (ordered (map fst (pushed s)) \<and> (odd (length (pushed s)) \<longleftrightarrow> isProcessing s) \<and>
      (isProcessing s \<longleftrightarrow> sleeping s \<noteq> None) \<and>
      (isProcessing s \<longrightarrow> is_array (messageHistory s)))"

text \<open>The state \<open>s\<close> with the feature toggle \<open>enableMessageHistory\<close> set to \<open>b\<close>.\<close>

definition with_history_feature :: "bool \<Rightarrow> genie \<Rightarrow> genie" where
  "with_history_feature b s =
     s\<lparr>config := (config s)\<lparr>features := (features (config s))\<lparr>enableMessageHistory := b\<rparr>\<rparr>\<rparr>"

text \<open>The three elements that \<open>cacheElements\<close> requires are on the page.\<close>

definition elements_present :: "page \<Rightarrow> bool" where
  "elements_present p = (chatWindowEl p \<noteq> None \<and> messageFormEl p \<and> messageInputEl p \<noteq> None)"









definition stored_message :: "jsstring \<Rightarrow> jsstring \<Rightarrow> jsstring \<Rightarrow> jsval" where
  "stored_message t s x =
     JObj [(js ''text'', JStr t), (js ''sender'', JStr s), (js ''timestamp'', JStr x)]"





section \<open>Example configurations\<close>

definition example_delay :: delay_range where
  "example_delay = \<lparr>delay_min = 5, delay_max = 5\<rparr>"

definition example_config :: genie_config where
  "example_config =
     \<lparr>messages = \<lparr>errorNetwork = js ''Sorry'', processing = js ''Genie is thinking...''\<rparr>,
      responses = \<lparr>replies = [js ''Presto'', js ''Granted''], delay = example_delay\<rparr>,
      ui = \<lparr>maxMessageLength = 3, autoScroll = True, showTypingIndicator = True,
            messageLimit = 2\<rparr>,
      features = \<lparr>enableMessageHistory = True, enableKeyboardShortcuts = True\<rparr>,
      development = \<lparr>enableLogging = True, debugMode = False, mockResponses = True\<rparr>\<rparr>"

definition example_chat :: chat_config where
  "example_chat =
     \<lparr>chat_maxMessageLength = 3, typingDelay = example_delay,
      chat_responses = [js ''Presto'', js ''Granted'']\<rparr>"


definition example_storage :: storage where
  "example_storage = \<lparr>accessible = True, quota = 1000, items = [], calls = []\<rparr>"

definition example_page :: page where
  "example_page =
     \<lparr>chatWindowEl = Some [], messageFormEl = True, messageInputEl = Some []\<rparr>"

definition example_window :: window where
  "example_window =
     \<lparr>GenieConfig = Some example_config, document = example_page,
      window_localStorage = example_storage\<rparr>"

text \<open>The controller that the constructor builds in \<open>example_window\<close>.\<close>

definition example_genie :: genie where
  "example_genie =
     \<lparr>config = example_config, messageHistory = JArr [], isProcessing = False,
      chatWindow = [], typingIndicator = None, inputValue = [], inputDisabled = False,
      alerts = [], console = [''initialized successfully''],
      localStorage = example_storage\<lparr>calls := [GetItem history_key]\<rparr>,
      sleeping = None, next_id = 1, pushed = []\<rparr>"

definition example_chat_state :: genie_chat where
  "example_chat_state =
     \<lparr>messageCount = 0, chat_messages = [], isTyping = False, isFirstMessage = True,
      chat_inputValue = [], chat_inputDisabled = False, shownErrors = []\<rparr>"

text \<open>A configuration with no replies and a delay range whose minimum exceeds its maximum.\<close>

definition misconfigured :: genie_config where
  "misconfigured =
     example_config\<lparr>responses := \<lparr>replies = [], delay = \<lparr>delay_min = 2000, delay_max = 800\<rparr>\<rparr>\<rparr>"


text \<open>
  Two sessions on the same storage, with the limit of 2 messages of \<open>example_config\<close>: in
  the first the user sends one message and the genie replies; \<open>stored_payload\<close> is the text
  the storage then holds. The second session starts in a window with this text stored,
  and the user sends one message.
\<close>

definition first_session :: "event list" where
  "first_session = [Input (js ''a''), Submit 1 1 0, TimerFires 2 2 0]"

definition stored_payload :: jsstring where
  \<open>stored_payload = js ''[{"text":"a","sender":"user","timestamp":"1970-01-01T00:00:00.001Z"},{"text":"Presto","sender":"genie","timestamp":"1970-01-01T00:00:00.002Z"}]''\<close>

definition second_window :: window where
  "second_window =
     example_window\<lparr>window_localStorage := example_storage\<lparr>items := [(history_key, stored_payload)]\<rparr>\<rparr>"

definition second_session :: "event list" where
  "second_session = [Input (js ''b''), Submit 3 3 0]"

definition restored_messages :: "jsval list" where
  "restored_messages =
     [stored_message (js ''a'') (js ''user'') (js ''1970-01-01T00:00:00.001Z''),
      stored_message (js ''Presto'') (js ''genie'') (js ''1970-01-01T00:00:00.002Z'')]"



text \<open>
  The controller while a submission is in flight: the user has sent \<open>hi\<close>, the timer of the
  reply is scheduled, and \<open>yo\<close> is in the input field. The chat of app.js with \<open>hi\<close> in its
  input field, and the chat while the genie is typing the reply to \<open>hi\<close>, with \<open>yo\<close> in the
  input field.
\<close>

definition processing_genie :: genie where
  "processing_genie = run [Input (js ''hi''), Submit 1 2 0, Input (js ''yo'')] example_genie"

definition typed_chat_state :: genie_chat where
  "typed_chat_state = example_chat_state\<lparr>chat_inputValue := js ''hi''\<rparr>"

definition typing_chat_state :: genie_chat where
  "typing_chat_state =
     (GenieChat_resume (GenieChat_handleSendMessage example_chat 1 typed_chat_state))
       \<lparr>chat_inputValue := js ''yo''\<rparr>"

section \<open>Properties of response selection\<close>

lemma floor_scaled_bounds:
  fixes r :: real and n :: int
  assumes "0 \<le> r" "r < 1" "0 < n"
  shows "0 \<le> \<lfloor>r * of_int n\<rfloor>" and "\<lfloor>r * of_int n\<rfloor> < n"
proof -
  have n: "(0::real) < of_int n" using assms(3) by simp
  from assms(1) n have "0 \<le> r * of_int n" by simp
  then show "0 \<le> \<lfloor>r * of_int n\<rfloor>" by simp
  have "r * of_int n < 1 * of_int n"
    using assms(2) n by (rule mult_strict_right_mono)
  then have "r * of_int n < of_int n" by simp
  then show "\<lfloor>r * of_int n\<rfloor> < n" by (simp add: floor_less_iff)
qed

lemma random_index_in_bounds:
  assumes "xs \<noteq> []" "0 \<le> r" "r < 1"
  shows "0 \<le> random_index xs r \<and> random_index xs r < int (length xs)"
proof -
  have "0 < int (length xs)" using assms(1) by simp
  from floor_scaled_bounds [OF assms(2,3) this] show ?thesis
    by (simp add: random_index_def)
qed

text \<open>
  C8. With \<open>min \<le> max\<close> and a draw \<open>0 \<le> r < 1\<close> the delay of genie.js and of app.js is an
  integer of the closed interval from \<open>min\<close> to \<open>max\<close>; for the range with
  \<open>min = max = 5\<close> it is 5.
\<close>

theorem delay_within_range:
  assumes "0 \<le> r" "r < 1"
  shows "(delay_min (delay (responses cfg)) \<le> delay_max (delay (responses cfg)) \<longrightarrow>
            delay_min (delay (responses cfg)) \<le> getRandomDelay cfg r \<and>
            getRandomDelay cfg r \<le> delay_max (delay (responses cfg))) \<and>
         (delay_min (typingDelay chat) \<le> delay_max (typingDelay chat) \<longrightarrow>
            delay_min (typingDelay chat) \<le> Utils_getRandomDelay chat r \<and>
            Utils_getRandomDelay chat r \<le> delay_max (typingDelay chat)) \<and>
         (delay_min (delay (responses cfg)) = 5 \<and> delay_max (delay (responses cfg)) = 5 \<longrightarrow>
            getRandomDelay cfg r = 5) \<and>
         (delay_min (typingDelay chat) = 5 \<and> delay_max (typingDelay chat) = 5 \<longrightarrow>
            Utils_getRandomDelay chat r = 5)"
proof -
  have range: "mn \<le> \<lfloor>r * of_int (mx - mn + 1)\<rfloor> + mn \<and> \<lfloor>r * of_int (mx - mn + 1)\<rfloor> + mn \<le> mx"
    if "mn \<le> mx" for mn mx :: int
  proof -
    have "0 < mx - mn + 1" using that by simp
    from floor_scaled_bounds [OF assms this] show ?thesis by linarith
  qed
  have genie: "delay_min (delay (responses cfg)) \<le> getRandomDelay cfg r \<and>
      getRandomDelay cfg r \<le> delay_max (delay (responses cfg))"
    if "delay_min (delay (responses cfg)) \<le> delay_max (delay (responses cfg))"
    using range [OF that] by (simp add: getRandomDelay_def Let_def)
  have app: "delay_min (typingDelay chat) \<le> Utils_getRandomDelay chat r \<and>
      Utils_getRandomDelay chat r \<le> delay_max (typingDelay chat)"
    if "delay_min (typingDelay chat) \<le> delay_max (typingDelay chat)"
    using range [OF that] by (simp add: Utils_getRandomDelay_def Let_def)
  have genie5: "getRandomDelay cfg r = 5"
    if "delay_min (delay (responses cfg)) = 5 \<and> delay_max (delay (responses cfg)) = 5"
    using genie that by simp
  have app5: "Utils_getRandomDelay chat r = 5"
    if "delay_min (typingDelay chat) = 5 \<and> delay_max (typingDelay chat) = 5"
    using app that by simp
  from genie app genie5 app5 show ?thesis by blast
qed

theorem delay_within_range_witness:
  "(0::real) \<le> 1/2 \<and> (1/2::real) < 1 \<and>
   delay_min (delay (responses example_config)) \<le> delay_max (delay (responses example_config)) \<and>
   getRandomDelay example_config (1/2) = 5 \<and>
   Utils_getRandomDelay example_chat (1/2) = 5"
  using delay_within_range [of "1/2" example_config example_chat]
  by (simp add: example_config_def example_chat_def example_delay_def)

text \<open>
  C9. For a non-empty reply array and a draw \<open>0 \<le> r < 1\<close> the index
  \<open>Math.floor(r * length)\<close> is within the array, and the reply selected by
  \<open>generateResponse\<close> (in its \<open>mockResponses\<close> branch, the one that selects) and by
  \<open>Utils.getRandomResponse\<close> is an element of the array, never \<open>undefined\<close>.
\<close>

theorem reply_selected_from_set:
  assumes "0 \<le> r" "r < 1"
  shows "(replies (responses cfg) \<noteq> [] \<longrightarrow>
            0 \<le> random_index (replies (responses cfg)) r \<and>
            random_index (replies (responses cfg)) r < int (length (replies (responses cfg))) \<and>
            (mockResponses (development cfg) \<longrightarrow>
               (\<exists>x. generateResponse cfg r = Some x \<and> x \<in> set (replies (responses cfg))))) \<and>
         (chat_responses chat \<noteq> [] \<longrightarrow>
            0 \<le> random_index (chat_responses chat) r \<and>
            random_index (chat_responses chat) r < int (length (chat_responses chat)) \<and>
            (\<exists>x. Utils_getRandomResponse chat r = Some x \<and> x \<in> set (chat_responses chat)))"
proof -
  have sel: "\<exists>x. js_index xs (random_index xs r) = Some x \<and> x \<in> set xs"
    if "xs \<noteq> []" for xs :: "jsstring list"
  proof -
    from random_index_in_bounds [OF that assms]
    have b: "0 \<le> random_index xs r" "random_index xs r < int (length xs)" by simp_all
    then have "nat (random_index xs r) < length xs" by simp
    then have "xs ! nat (random_index xs r) \<in> set xs" by (rule nth_mem)
    with b show ?thesis by (simp add: js_index_def)
  qed
  have genie: "0 \<le> random_index (replies (responses cfg)) r \<and>
      random_index (replies (responses cfg)) r < int (length (replies (responses cfg))) \<and>
      (mockResponses (development cfg) \<longrightarrow>
         (\<exists>x. generateResponse cfg r = Some x \<and> x \<in> set (replies (responses cfg))))"
    if "replies (responses cfg) \<noteq> []"
    using random_index_in_bounds [OF that assms] sel [OF that]
    by (simp add: generateResponse_def Let_def)
  have app: "0 \<le> random_index (chat_responses chat) r \<and>
      random_index (chat_responses chat) r < int (length (chat_responses chat)) \<and>
      (\<exists>x. Utils_getRandomResponse chat r = Some x \<and> x \<in> set (chat_responses chat))"
    if "chat_responses chat \<noteq> []"
    using random_index_in_bounds [OF that assms] sel [OF that]
    by (simp add: Utils_getRandomResponse_def Let_def)
  from genie app show ?thesis by blast
qed

theorem reply_selected_from_set_witness:
  "(0::real) \<le> 3/4 \<and> (3/4::real) < 1 \<and> replies (responses example_config) \<noteq> [] \<and>
   mockResponses (development example_config) \<and>
   random_index (replies (responses example_config)) (3/4) = 1 \<and>
   generateResponse example_config (3/4) = Some (js ''Granted'') \<and>
   Utils_getRandomResponse example_chat (3/4) = Some (js ''Granted'')"
  using reply_selected_from_set [of "3/4" example_config example_chat]
  by (simp add: example_config_def example_chat_def example_delay_def generateResponse_def
      Utils_getRandomResponse_def random_index_def js_index_def Let_def)

section \<open>Validation\<close>

lemma trim_idem: "trim (trim s) = trim s"
proof (cases "trim s = []")
  case True
  have "trim [] = []" by (simp add: trim_def)
  with True show ?thesis by simp
next
  case False
  define u where "u = dropWhile is_ws s"
  define w where "w = dropWhile is_ws (rev u)"
  have t: "trim s = rev w" by (simp add: trim_def u_def w_def)
  from False t have wne: "w \<noteq> []" by simp
  then have hw: "\<not> is_ws (hd w)" unfolding w_def by (rule hd_dropWhile)
  have "\<exists>p. rev u = p @ w" unfolding w_def
    by (metis takeWhile_dropWhile_id)
  then obtain p where p: "rev u = p @ w" ..
  then have u: "u = rev w @ rev p" by (metis rev_append rev_rev_ident)
  from wne have rne: "rev w \<noteq> []" by simp
  then have "hd (rev w) = hd u" using u by simp
  moreover have "u \<noteq> []" using u rne by simp
  then have "\<not> is_ws (hd u)" unfolding u_def by (rule hd_dropWhile)
  ultimately have h1: "\<not> is_ws (hd (rev w))" by simp
  from h1 rne have d1: "dropWhile is_ws (rev w) = rev w"
    by (cases "rev w") simp_all
  from hw wne have d2: "dropWhile is_ws w = w" by (cases w) simp_all
  have "trim (rev w) = rev w" unfolding trim_def by (simp add: d1 d2)
  with t show ?thesis by simp
qed

section \<open>The controller\<close>

lemma log_message_frame:
  "messageHistory (log_message l s) = messageHistory s"
  "chatWindow (log_message l s) = chatWindow s"
  "isProcessing (log_message l s) = isProcessing s"
  "pushed (log_message l s) = pushed s"
  "sleeping (log_message l s) = sleeping s"
  "config (log_message l s) = config s"
  "alerts (log_message l s) = alerts s"
  "inputValue (log_message l s) = inputValue s"
  "inputDisabled (log_message l s) = inputDisabled s"
  "typingIndicator (log_message l s) = typingIndicator s"
  "next_id (log_message l s) = next_id s"
  "localStorage (log_message l s) = localStorage s"
  by (simp_all add: log_message_def)

lemma handleError_frame:
  "messageHistory (handleError l s) = messageHistory s"
  "chatWindow (handleError l s) = chatWindow s"
  "isProcessing (handleError l s) = isProcessing s"
  "pushed (handleError l s) = pushed s"
  "sleeping (handleError l s) = sleeping s"
  "config (handleError l s) = config s"
  "alerts (handleError l s) = alerts s"
  "inputValue (handleError l s) = inputValue s"
  "inputDisabled (handleError l s) = inputDisabled s"
  "typingIndicator (handleError l s) = typingIndicator s"
  "next_id (handleError l s) = next_id s"
  "localStorage (handleError l s) = localStorage s"
  by (simp_all add: handleError_def Let_def log_message_frame)

lemma saveMessageHistory_frame:
  "messageHistory (saveMessageHistory s) = messageHistory s"
  "chatWindow (saveMessageHistory s) = chatWindow s"
  "isProcessing (saveMessageHistory s) = isProcessing s"
  "pushed (saveMessageHistory s) = pushed s"
  "sleeping (saveMessageHistory s) = sleeping s"
  "config (saveMessageHistory s) = config s"
  "alerts (saveMessageHistory s) = alerts s"
  "inputValue (saveMessageHistory s) = inputValue s"
  "inputDisabled (saveMessageHistory s) = inputDisabled s"
  "typingIndicator (saveMessageHistory s) = typingIndicator s"
  "next_id (saveMessageHistory s) = next_id s"
  by (simp_all add: saveMessageHistory_def log_message_frame split: sum.split prod.split option.split)

lemma enforceMessageLimit_array:
  assumes "messageHistory s = JArr xs"
  shows "enforceMessageLimit s =
           (None,
            if messageLimit (ui (config s)) < length (filter counted (chatWindow s))
            then s\<lparr>chatWindow :=
                      remove_excess (length (filter counted (chatWindow s)) - messageLimit (ui (config s)))
                        (chatWindow s),
                   messageHistory := JArr (js_slice xs (- int (messageLimit (ui (config s)))))\<rparr>
            else s)"
  using assms by (simp add: enforceMessageLimit_def slice_def Let_def)

lemma push_array: "push (JArr xs) x = Inr (JArr (xs @ [x]))"
  by (simp add: push_def)

lemma push_not_array: "\<not> is_array v \<Longrightarrow> push v x = Inl TypeError"
  by (cases v) (simp_all add: push_def is_array_def)

lemma addMessage_array:
  assumes "messageHistory s = JArr xs"
  shows "fst (addMessage text sender now s) = None"
    and "pushed (snd (addMessage text sender now s)) = pushed s @ [(sender, text)]"
    and "is_array (messageHistory (snd (addMessage text sender now s)))"
    and "isProcessing (snd (addMessage text sender now s)) = isProcessing s"
    and "sleeping (snd (addMessage text sender now s)) = sleeping s"
    and "config (snd (addMessage text sender now s)) = config s"
    and "alerts (snd (addMessage text sender now s)) = alerts s"
    and "inputValue (snd (addMessage text sender now s)) = inputValue s"
    and "inputDisabled (snd (addMessage text sender now s)) = inputDisabled s"
    and "typingIndicator (snd (addMessage text sender now s)) = typingIndicator s"
  using assms
  by (simp_all add: addMessage_def createMessageElement_def push_array enforceMessageLimit_array
      saveMessageHistory_frame is_array_def Let_def)

lemma addMessage_array_history:
  assumes "messageHistory s = JArr xs"
  shows "messageHistory (snd (addMessage text sender now s)) =
           JArr (if over_limit text sender s
                 then js_slice (xs @ [new_message text sender now])
                        (- int (messageLimit (ui (config s))))
                 else xs @ [new_message text sender now])"
    and "chatWindow (snd (addMessage text sender now s)) =
           (if over_limit text sender s
            then remove_excess
                   (length (filter counted (chatWindow s @ [message_element text sender s])) -
                    messageLimit (ui (config s)))
                   (chatWindow s @ [message_element text sender s])
            else chatWindow s @ [message_element text sender s])"
    and "next_id (snd (addMessage text sender now s)) = Suc (next_id s)"
  using assms
  by (simp_all add: addMessage_def createMessageElement_def push_array enforceMessageLimit_array
      saveMessageHistory_frame over_limit_def message_element_def Let_def)

lemma addMessage_not_array:
  assumes "\<not> is_array (messageHistory s)"
  shows "fst (addMessage text sender now s) = Some TypeError"
    and "pushed (snd (addMessage text sender now s)) = pushed s"
    and "messageHistory (snd (addMessage text sender now s)) = messageHistory s"
    and "isProcessing (snd (addMessage text sender now s)) = isProcessing s"
    and "sleeping (snd (addMessage text sender now s)) = sleeping s"
    and "config (snd (addMessage text sender now s)) = config s"
    and "alerts (snd (addMessage text sender now s)) = alerts s"
    and "inputValue (snd (addMessage text sender now s)) = inputValue s"
    and "localStorage (snd (addMessage text sender now s)) = localStorage s"
  using assms
  by (simp_all add: addMessage_def createMessageElement_def push_not_array Let_def)

lemma ordered_append_User: "ordered xs \<Longrightarrow> even (length xs) \<Longrightarrow> ordered (xs @ [User])"
  by (induction xs rule: ordered.induct) simp_all

lemma ordered_append_Genie: "ordered xs \<Longrightarrow> odd (length xs) \<Longrightarrow> ordered (xs @ [Genie])"
  by (induction xs rule: ordered.induct) simp_all

lemma validateMessage_cases:
  "validateMessage m s = (True, s) \<or> validateMessage m s = (False, showError EmptyMessage s) \<or>
   validateMessage m s = (False, showError TooLong s)"
  by (simp add: validateMessage_def)

lemma showError_frame:
  "messageHistory (showError e s) = messageHistory s"
  "pushed (showError e s) = pushed s"
  "isProcessing (showError e s) = isProcessing s"
  "sleeping (showError e s) = sleeping s"
  by (simp_all add: showError_def)

lemma single_flight_showError: "single_flight s \<Longrightarrow> single_flight (showError e s)"
  by (simp add: single_flight_def showError_frame)

lemma send_failed_not_array:
  assumes "\<not> is_array (messageHistory s)"
  shows "pushed (snd (send_failed now' s)) = pushed s"
    and "sleeping (snd (send_failed now' s)) = sleeping s"
    and "\<not> isProcessing (snd (send_failed now' s))"
  using assms
  by (simp_all add: send_failed_def send_finally_def updateUIState_def Let_def split_beta
      addMessage_not_array handleError_frame)

lemma showTypingIndicator_genie_frame:
  "messageHistory (showTypingIndicator_genie s) = messageHistory s"
  "pushed (showTypingIndicator_genie s) = pushed s"
  "isProcessing (showTypingIndicator_genie s) = isProcessing s"
  "config (showTypingIndicator_genie s) = config s"
  by (simp_all add: showTypingIndicator_genie_def createMessageElement_def Let_def)

lemma hideTypingIndicator_frame:
  "messageHistory (hideTypingIndicator s) = messageHistory s"
  "pushed (hideTypingIndicator s) = pushed s"
  "isProcessing (hideTypingIndicator s) = isProcessing s"
  "sleeping (hideTypingIndicator s) = sleeping s"
  "config (hideTypingIndicator s) = config s"
  by (simp_all add: hideTypingIndicator_def split: option.split)

lemma is_arrayE: "is_array v \<Longrightarrow> \<exists>xs. v = JArr xs"
  by (cases v) (simp_all add: is_array_def)

lemma single_flight_submit:
  assumes "single_flight s"
  shows "single_flight (snd (handleSendMessage now now' r s))"
proof -
  define m where "m = trim (inputValue s)"
  consider (ok) "validateMessage m s = (True, s)"
    | (bad) e where "validateMessage m s = (False, showError e s)"
    using validateMessage_cases [of m s] by blast
  then show ?thesis
  proof cases
    case bad
    then show ?thesis
      using assms by (simp add: handleSendMessage_def m_def [symmetric] single_flight_showError)
  next
    case ok
    show ?thesis
    proof (cases "isProcessing s")
      case True
      with ok assms show ?thesis by (simp add: handleSendMessage_def m_def [symmetric])
    next
      case False
      define s1 where "s1 = updateUIState True (s\<lparr>isProcessing := True\<rparr>)"
      have s1: "messageHistory s1 = messageHistory s" "pushed s1 = pushed s"
        "sleeping s1 = sleeping s" "isProcessing s1"
        by (simp_all add: s1_def updateUIState_def)
      from False assms have ev: "even (length (pushed s))" "ordered (map fst (pushed s))"
        "sleeping s = None"
        by (simp_all add: single_flight_def)
      show ?thesis
      proof (cases "is_array (messageHistory s)")
        case True
        then obtain xs where xs: "messageHistory s1 = JArr xs" using s1 is_arrayE by metis
        obtain s2 where a: "addMessage (JStr m) User now s1 = (None, s2)"
          using addMessage_array(1) [OF xs, of "JStr m" User now] by (metis prod.collapse)
        have s2: "pushed s2 = pushed s @ [(User, JStr m)]" "is_array (messageHistory s2)"
          using addMessage_array(2,3) [OF xs, of "JStr m" User now] a s1 by simp_all
        have "single_flight (snd (handleSendMessage now now' r s)) =
              single_flight ((if showTypingIndicator (ui (config (s2\<lparr>inputValue := []\<rparr>)))
                   then showTypingIndicator_genie (s2\<lparr>inputValue := []\<rparr>)
                   else s2\<lparr>inputValue := []\<rparr>)
                  \<lparr>sleeping := Some (getRandomDelay (config (if showTypingIndicator (ui (config (s2\<lparr>inputValue := []\<rparr>)))
                   then showTypingIndicator_genie (s2\<lparr>inputValue := []\<rparr>)
                   else s2\<lparr>inputValue := []\<rparr>)) r)\<rparr>)"
          using ok False a
          by (simp add: handleSendMessage_def m_def [symmetric] s1_def [symmetric] Let_def)
        also have "\<dots>"
          using s2 ev a addMessage_array(4) [OF xs, of "JStr m" User now] s1
          by (simp add: single_flight_def showTypingIndicator_genie_frame ordered_append_User)
        finally show ?thesis .
      next
        case na: False
        then have na1: "\<not> is_array (messageHistory s1)" using s1 by simp
        obtain s2 where a: "addMessage (JStr m) User now s1 = (Some TypeError, s2)"
          using addMessage_not_array(1) [OF na1, of "JStr m" User now] by (metis prod.collapse)
        have s2: "pushed s2 = pushed s" "\<not> is_array (messageHistory s2)" "sleeping s2 = sleeping s"
          using addMessage_not_array(2,3,5) [OF na1, of "JStr m" User now] a s1 na by simp_all
        have "snd (handleSendMessage now now' r s) = snd (send_failed now' s2)"
          using ok False a
          by (simp add: handleSendMessage_def m_def [symmetric] s1_def [symmetric] Let_def)
        then show ?thesis
          using send_failed_not_array [OF s2(2), of now'] s2 ev
          by (simp add: single_flight_def)
      qed
    qed
  qed
qed

lemma send_finally_frame:
  "pushed (send_finally s) = pushed s"
  "sleeping (send_finally s) = sleeping s"
  "messageHistory (send_finally s) = messageHistory s"
  "\<not> isProcessing (send_finally s)"
  by (simp_all add: send_finally_def updateUIState_def)

lemma single_flight_resume:
  assumes "single_flight s"
  shows "single_flight (snd (resume now now' r s))"
proof (cases "sleeping s")
  case None
  with assms show ?thesis by (simp add: resume_def)
next
  case (Some d)
  define s1 where "s1 = hideTypingIndicator (s\<lparr>sleeping := None\<rparr>)"
  define response where
    "response = (case generateResponse (config s1) r of None \<Rightarrow> JUndefined | Some t \<Rightarrow> JStr t)"
  from Some assms have p: "isProcessing s" "odd (length (pushed s))"
    "ordered (map fst (pushed s))" "is_array (messageHistory s)"
    by (simp_all add: single_flight_def)
  have s1: "messageHistory s1 = messageHistory s" "pushed s1 = pushed s" "sleeping s1 = None"
    by (simp_all add: s1_def hideTypingIndicator_frame)
  from p(4) s1 obtain xs where xs: "messageHistory s1 = JArr xs" using is_arrayE by metis
  obtain s2 where a: "addMessage response Genie now s1 = (None, s2)"
    using addMessage_array(1) [OF xs, of response Genie now] by (metis prod.collapse)
  have s2: "pushed s2 = pushed s @ [(Genie, response)]" "sleeping s2 = None"
    using addMessage_array(2,5) [OF xs, of response Genie now] a s1 by simp_all
  have "snd (resume now now' r s) = send_finally s2"
    using Some a
    by (simp add: resume_def s1_def [symmetric] response_def [symmetric] Let_def)
  then show ?thesis
    using s2 p by (simp add: single_flight_def send_finally_frame ordered_append_Genie)
qed

lemma single_flight_step: "single_flight s \<Longrightarrow> single_flight (step e s)"
  by (cases e) (simp_all add: single_flight_submit single_flight_resume, simp add: single_flight_def)

lemma single_flight_run: "single_flight s \<Longrightarrow> single_flight (run es s)"
  unfolding run_def by (induction es arbitrary: s) (simp_all add: single_flight_step)

lemma loadMessageHistory_frame:
  "pushed (loadMessageHistory s) = pushed s"
  "isProcessing (loadMessageHistory s) = isProcessing s"
  "sleeping (loadMessageHistory s) = sleeping s"
  "config (loadMessageHistory s) = config s"
  "chatWindow (loadMessageHistory s) = chatWindow s"
  by (simp_all add: loadMessageHistory_def log_message_frame split: prod.split sum.split option.split)

lemma constructor_single_flight:
  assumes "constructor w = Initialized s0"
  shows "single_flight s0"
proof -
  from assms obtain cfg where "init cfg w = Initialized s0"
    by (auto simp add: constructor_def split: option.splits)
  then show ?thesis
    by (auto simp add: init_def single_flight_def log_message_frame loadMessageHistory_frame
        split: option.splits if_splits)
qed

lemma rejected_while_processing:
  assumes "isProcessing s"
  shows "\<exists>a. handleSendMessage now now' r s = (None, s\<lparr>alerts := a\<rparr>)"
proof -
  from validateMessage_cases [of "trim (inputValue s)" s]
  consider "validateMessage (trim (inputValue s)) s = (True, s)"
    | e where "validateMessage (trim (inputValue s)) s = (False, showError e s)"
    by blast
  then show ?thesis
  proof cases
    case 1
    with assms have "handleSendMessage now now' r s = (None, s\<lparr>alerts := alerts s\<rparr>)"
      by (simp add: handleSendMessage_def)
    then show ?thesis ..
  next
    case 2
    then have "handleSendMessage now now' r s = (None, s\<lparr>alerts := alerts s @ [e]\<rparr>)"
      by (simp add: handleSendMessage_def showError_def)
    then show ?thesis ..
  qed
qed

lemma processing_genie_facts:
  "isProcessing processing_genie \<and> sleeping processing_genie = Some 5 \<and>
   inputValue processing_genie = js ''yo'' \<and>
   pushed processing_genie = [(User, JStr (js ''hi''))]"
  by code_simp

lemma rejected_valid_while_processing:
  assumes "isProcessing s" "trim (inputValue s) \<noteq> []"
    "int (length (trim (inputValue s))) \<le> maxMessageLength (ui (config s))"
  shows "handleSendMessage now now' r s = (None, s)"
  using assms by (simp add: handleSendMessage_def validateMessage_def)

text \<open>
  C2, as the specification states it for app.js: in every execution the messages are
  appended in the order message of the user, reply of the genie, and no second submission
  comes in between. It fails for \<open>handleSendMessage\<close> of app.js: \<open>isTyping\<close> is set only in
  \<open>simulateGenieResponse\<close>, after the first \<open>await\<close>; a second call that arrives while the
  first is suspended there finds \<open>isTyping\<close> false and the input field not yet cleared, and
  appends a second message of the user.
\<close>

theorem second_call_before_typing_counterexample:
  "\<not> isTyping (GenieChat_handleSendMessage example_chat 1 typed_chat_state) \<and>
   map mtype (chat_messages
     (GenieChat_handleSendMessage example_chat 2
        (GenieChat_handleSendMessage example_chat 1 typed_chat_state))) = [User, User] \<and>
   \<not> ordered (map mtype (chat_messages
     (GenieChat_handleSendMessage example_chat 2
        (GenieChat_handleSendMessage example_chat 1 typed_chat_state))))"
proof -
  have t: "trim (js ''hi'') = js ''hi''" by (simp add: trim_def js_def is_ws_def)
  have l: "length (js ''hi'') = 2" "js ''hi'' \<noteq> []" by (simp_all add: js_def)
  have v: "Utils_validateMessage example_chat (js ''hi'') = Valid"
    by (simp add: Utils_validateMessage_def t l example_chat_def)
  have 1: "GenieChat_handleSendMessage example_chat 1 typed_chat_state =
      addUserMessage (js ''hi'') 1 (typed_chat_state\<lparr>chat_inputDisabled := True\<rparr>)"
    by (simp add: GenieChat_handleSendMessage_def typed_chat_state_def example_chat_state_def t v
        Let_def)
  have 2: "GenieChat_handleSendMessage example_chat 2
        (addUserMessage (js ''hi'') 1 (typed_chat_state\<lparr>chat_inputDisabled := True\<rparr>)) =
      addUserMessage (js ''hi'') 2
        ((addUserMessage (js ''hi'') 1 (typed_chat_state\<lparr>chat_inputDisabled := True\<rparr>))
           \<lparr>chat_inputDisabled := True\<rparr>)"
    by (simp add: GenieChat_handleSendMessage_def addUserMessage_def typed_chat_state_def
        example_chat_state_def t v Let_def)
  show ?thesis
    unfolding 1 2
    by (simp add: addUserMessage_def typed_chat_state_def example_chat_state_def)
qed

text \<open>
  C2, amended. While \<open>isProcessing\<close> is set, a call of \<open>handleSendMessage\<close> of genie.js returns
  without an exception and changes nothing but the alerts shown (the validation runs before
  the guard); with a valid text in the input field it changes nothing at all, so nothing is
  pushed. While \<open>isTyping\<close> is set, \<open>handleSendMessage\<close> of app.js changes nothing at all. In
  genie.js \<open>isProcessing\<close> is set before the message of the user is pushed: after any
  sequence of events on a controller built by the constructor, the pushes come in the
  order message of the user, reply of the genie to it, and a message of the user waits for
  its reply exactly while \<open>isProcessing\<close> is set.
\<close>

theorem submissions_rejected_while_flagged:
  "(isProcessing s \<longrightarrow> (\<exists>a. handleSendMessage now now' r s = (None, s\<lparr>alerts := a\<rparr>))) \<and>
   (isProcessing s \<and> trim (inputValue s) \<noteq> [] \<and>
    int (length (trim (inputValue s))) \<le> maxMessageLength (ui (config s)) \<longrightarrow>
      handleSendMessage now now' r s = (None, s)) \<and>
   (isTyping c \<longrightarrow> GenieChat_handleSendMessage chat now c = c) \<and>
   (constructor w = Initialized s0 \<longrightarrow>
      ordered (map fst (pushed (run es s0))) \<and>
      (isProcessing (run es s0) \<longleftrightarrow> odd (length (pushed (run es s0)))))"
proof -
  have "single_flight (run es s0)" if "constructor w = Initialized s0"
    using that by (simp add: constructor_single_flight single_flight_run)
  then show ?thesis
    using rejected_while_processing [of s now now' r]
      rejected_valid_while_processing [of s now now' r]
    by (auto simp add: GenieChat_handleSendMessage_def single_flight_def)
qed

lemma constructor_example: "constructor example_window = Initialized example_genie"
  by (simp add: constructor_def init_def example_window_def example_page_def example_genie_def
      loadMessageHistory_def getItem_def example_storage_def example_config_def log_message_def)

theorem submissions_rejected_while_flagged_witness:
  "isProcessing processing_genie \<and>
   trim (inputValue processing_genie) = js ''yo'' \<and>
   int (length (js ''yo'')) \<le> maxMessageLength (ui (config processing_genie)) \<and>
   handleSendMessage 3 4 0 processing_genie = (None, processing_genie) \<and>
   pushed (run [Input (js ''hi''), Submit 1 2 0, Input (js ''yo''), Submit 3 4 0] example_genie) =
     [(User, JStr (js ''hi''))] \<and>
   isTyping typing_chat_state \<and>
   trim (chat_inputValue typing_chat_state) = js ''yo'' \<and>
   map mcontent (chat_messages typing_chat_state) = [js ''hi''] \<and>
   GenieChat_handleSendMessage example_chat 3 typing_chat_state = typing_chat_state \<and>
   constructor example_window = Initialized example_genie \<and>
   ordered (map fst (pushed (run [Input (js ''hi''), Submit 1 2 0, Input (js ''yo''), Submit 3 4 0,
                                   TimerFires 5 6 (3/4)] example_genie)))"
proof -
  have t: "trim (js ''yo'') = js ''yo''" "trim (js ''hi'') = js ''hi''"
    by (simp_all add: trim_def js_def is_ws_def)
  have l: "length (js ''yo'') = 2" "js ''yo'' \<noteq> []" "length (js ''hi'') = 2" "js ''hi'' \<noteq> []"
    by (simp_all add: js_def)
  have c: "config processing_genie = example_config"
    by code_simp
  have m: "maxMessageLength (ui (config processing_genie)) = 3"
    by (simp add: c example_config_def)
  note f = processing_genie_facts
  have r: "run [Input (js ''hi''), Submit 1 2 0, Input (js ''yo''), Submit 3 4 0] example_genie =
      snd (handleSendMessage 3 4 0 processing_genie)"
    by (simp add: run_def processing_genie_def)
  have v: "Utils_validateMessage example_chat (js ''hi'') = Valid"
    by (simp add: Utils_validateMessage_def t l example_chat_def)
  have g: "isTyping typing_chat_state" "chat_inputValue typing_chat_state = js ''yo''"
    "map mcontent (chat_messages typing_chat_state) = [js ''hi'']"
    by (simp_all add: typing_chat_state_def GenieChat_resume_def GenieChat_handleSendMessage_def
        typed_chat_state_def example_chat_state_def addUserMessage_def t v Let_def)
  show ?thesis
    using submissions_rejected_while_flagged [where s = processing_genie
        and now = 3 and now' = 4 and r = 0
        and c = typing_chat_state
        and chat = example_chat and w = example_window and ?s0.0 = example_genie
        and es = "[Input (js ''hi''), Submit 1 2 0, Input (js ''yo''), Submit 3 4 0,
                   TimerFires 5 6 (3/4)]"]
      constructor_example f
    by (simp add: t l m r g)
qed


text \<open>
  C7. For a valid value \<open>v\<close> of the input field (its trimmed text is not empty and no longer
  than the bound) the validation succeeds, and the message that \<open>handleSendMessage\<close>
  records for the user, in genie.js and in app.js, has the text \<open>trim v\<close>.
\<close>

theorem valid_input_is_trimmed:
  "(trim v \<noteq> [] \<and> int (length (trim v)) \<le> maxMessageLength (ui (config s)) \<and>
    inputValue s = v \<and> \<not> isProcessing s \<and> is_array (messageHistory s) \<longrightarrow>
      validateMessage (trim v) s = (True, s) \<and>
      fst (handleSendMessage now now' r s) = None \<and>
      pushed (snd (handleSendMessage now now' r s)) = pushed s @ [(User, JStr (trim v))]) \<and>
   (trim v \<noteq> [] \<and> int (length (trim v)) \<le> chat_maxMessageLength chat \<and>
    chat_inputValue c = v \<and> \<not> isTyping c \<longrightarrow>
      Utils_validateMessage chat (trim v) = Valid \<and>
      chat_messages (GenieChat_handleSendMessage chat now c) =
        chat_messages c @ [\<lparr>mtype = User, mcontent = trim v, mtimestamp = now\<rparr>])"
proof -
  have genie: "validateMessage (trim v) s = (True, s) \<and>
      fst (handleSendMessage now now' r s) = None \<and>
      pushed (snd (handleSendMessage now now' r s)) = pushed s @ [(User, JStr (trim v))]"
    if h: "trim v \<noteq> []" "int (length (trim v)) \<le> maxMessageLength (ui (config s))"
      "inputValue s = v" "\<not> isProcessing s" "is_array (messageHistory s)"
  proof -
    have ok: "validateMessage (trim v) s = (True, s)"
      using h(1,2) by (simp add: validateMessage_def)
    define s1 where "s1 = updateUIState True (s\<lparr>isProcessing := True\<rparr>)"
    have s1: "messageHistory s1 = messageHistory s" "pushed s1 = pushed s"
      by (simp_all add: s1_def updateUIState_def)
    from h(5) s1 obtain xs where xs: "messageHistory s1 = JArr xs" using is_arrayE by metis
    obtain s2 where a: "addMessage (JStr (trim v)) User now s1 = (None, s2)"
      using addMessage_array(1) [OF xs, of "JStr (trim v)" User now] by (metis prod.collapse)
    have s2: "pushed s2 = pushed s @ [(User, JStr (trim v))]"
      using addMessage_array(2) [OF xs, of "JStr (trim v)" User now] a s1 by simp
    have "fst (handleSendMessage now now' r s) = None \<and>
          pushed (snd (handleSendMessage now now' r s)) = pushed s2"
      using ok h(3,4) a
      by (simp add: handleSendMessage_def s1_def [symmetric] Let_def showTypingIndicator_genie_frame)
    with ok s2 show ?thesis by simp
  qed
  have app: "Utils_validateMessage chat (trim v) = Valid \<and>
      chat_messages (GenieChat_handleSendMessage chat now c) =
        chat_messages c @ [\<lparr>mtype = User, mcontent = trim v, mtimestamp = now\<rparr>]"
    if h: "trim v \<noteq> []" "int (length (trim v)) \<le> chat_maxMessageLength chat"
      "chat_inputValue c = v" "\<not> isTyping c"
  proof -
    have ok: "Utils_validateMessage chat (trim v) = Valid"
      using h(1,2) by (simp add: Utils_validateMessage_def trim_idem)
    with h(3,4) show ?thesis
      by (simp add: GenieChat_handleSendMessage_def addUserMessage_def)
  qed
  from genie app show ?thesis by blast
qed

theorem valid_input_is_trimmed_witness:
  "trim (js ''  hi '') \<noteq> [] \<and>
   int (length (trim (js ''  hi ''))) \<le> maxMessageLength (ui (config example_genie)) \<and>
   \<not> isProcessing example_genie \<and> is_array (messageHistory example_genie) \<and>
   pushed (snd (handleSendMessage 1 2 0 (example_genie\<lparr>inputValue := js ''  hi ''\<rparr>))) =
     [(User, JStr (js ''hi''))] \<and>
   chat_messages (GenieChat_handleSendMessage example_chat 1
                    (example_chat_state\<lparr>chat_inputValue := js ''  hi ''\<rparr>)) =
     [\<lparr>mtype = User, mcontent = js ''hi'', mtimestamp = 1\<rparr>]"
proof -
  have t: "trim (js ''  hi '') = js ''hi''"
    by (simp add: trim_def js_def is_ws_def)
  have l: "length (js ''hi'') = 2" "js ''hi'' \<noteq> []"
    by (simp_all add: js_def)
  have g: "maxMessageLength (ui (config (example_genie\<lparr>inputValue := js ''  hi ''\<rparr>))) = 3"
    "maxMessageLength (ui (config example_genie)) = 3"
    "\<not> isProcessing (example_genie\<lparr>inputValue := js ''  hi ''\<rparr>)"
    "is_array (messageHistory (example_genie\<lparr>inputValue := js ''  hi ''\<rparr>))"
    "is_array (messageHistory example_genie)"
    "\<not> isProcessing example_genie"
    "pushed (example_genie\<lparr>inputValue := js ''  hi ''\<rparr>) = []"
    by (simp_all add: example_genie_def example_config_def is_array_def)
  have c: "chat_maxMessageLength example_chat = 3"
    "\<not> isTyping (example_chat_state\<lparr>chat_inputValue := js ''  hi ''\<rparr>)"
    "chat_messages (example_chat_state\<lparr>chat_inputValue := js ''  hi ''\<rparr>) = []"
    by (simp_all add: example_chat_def example_chat_state_def)
  show ?thesis
    using valid_input_is_trimmed [where v = "js ''  hi ''"
        and s = "example_genie\<lparr>inputValue := js ''  hi ''\<rparr>" and now = 1 and now' = 2 and r = 0
        and chat = example_chat and c = "example_chat_state\<lparr>chat_inputValue := js ''  hi ''\<rparr>"]
    unfolding t by (simp add: l g c)
qed

section \<open>Validation of the submitted input\<close>









section \<open>The feature toggle and the initialization\<close>

lemma addMessage_not_array_window:
  assumes "\<not> is_array (messageHistory s)"
  shows "chatWindow (snd (addMessage text sender now s)) =
           chatWindow s @ [message_element text sender s]"
  using assms
  by (simp add: addMessage_def createMessageElement_def push_not_array message_element_def Let_def)

lemma with_history_feature_frame:
  "messageHistory (with_history_feature b s) = messageHistory s"
  "chatWindow (with_history_feature b s) = chatWindow s"
  "pushed (with_history_feature b s) = pushed s"
  "isProcessing (with_history_feature b s) = isProcessing s"
  "next_id (with_history_feature b s) = next_id s"
  "ui (config (with_history_feature b s)) = ui (config s)"
  "localStorage (with_history_feature b s) = localStorage s"
  by (simp_all add: with_history_feature_def)

lemma addMessage_feature_independent:
  "fst (addMessage tx sender now (with_history_feature b s)) = fst (addMessage tx sender now s) \<and>
   messageHistory (snd (addMessage tx sender now (with_history_feature b s))) =
     messageHistory (snd (addMessage tx sender now s)) \<and>
   chatWindow (snd (addMessage tx sender now (with_history_feature b s))) =
     chatWindow (snd (addMessage tx sender now s)) \<and>
   pushed (snd (addMessage tx sender now (with_history_feature b s))) =
     pushed (snd (addMessage tx sender now s)) \<and>
   isProcessing (snd (addMessage tx sender now (with_history_feature b s))) =
     isProcessing (snd (addMessage tx sender now s))"
proof (cases "is_array (messageHistory s)")
  case True
  then obtain xs where xs: "messageHistory s = JArr xs" using is_arrayE by blast
  then have xs': "messageHistory (with_history_feature b s) = JArr xs"
    by (simp add: with_history_feature_frame)
  have o: "over_limit tx sender (with_history_feature b s) = over_limit tx sender s"
    "message_element tx sender (with_history_feature b s) = message_element tx sender s"
    by (simp_all add: over_limit_def message_element_def with_history_feature_frame)
  show ?thesis
    by (simp add: addMessage_array [OF xs] addMessage_array [OF xs']
        addMessage_array_history [OF xs] addMessage_array_history [OF xs'] o
        with_history_feature_frame)
next
  case False
  then have f: "\<not> is_array (messageHistory (with_history_feature b s))"
    by (simp add: with_history_feature_frame)
  have o: "message_element tx sender (with_history_feature b s) = message_element tx sender s"
    by (simp add: message_element_def with_history_feature_frame)
  show ?thesis
    by (simp add: addMessage_not_array [OF False] addMessage_not_array [OF f]
        addMessage_not_array_window [OF False] addMessage_not_array_window [OF f] o
        with_history_feature_frame)
qed

lemma addMessage_feature_off:
  assumes "\<not> enableMessageHistory (features (config s))"
  shows "localStorage (snd (addMessage tx sender now s)) = localStorage s"
  using assms
  by (simp add: addMessage_def createMessageElement_def push_def enforceMessageLimit_def
      slice_def Let_def split: jsval.split sum.split)

text \<open>
  C10. With the feature toggle \<open>enableMessageHistory\<close> off, \<open>saveMessageHistory\<close> and
  \<open>loadMessageHistory\<close> return the state as it is (no call of the storage is made, the
  history is untouched) and \<open>addMessage\<close> leaves the storage as it is; and whatever the
  toggle, \<open>addMessage\<close> gives the same result, history, chat window, pushes and
  \<open>isProcessing\<close>.
\<close>

theorem history_feature_disabled:
  "(\<not> enableMessageHistory (features (config s)) \<longrightarrow>
      saveMessageHistory s = s \<and> loadMessageHistory s = s \<and>
      localStorage (snd (addMessage tx sender now s)) = localStorage s) \<and>
   fst (addMessage tx sender now (with_history_feature False s)) =
     fst (addMessage tx sender now (with_history_feature True s)) \<and>
   messageHistory (snd (addMessage tx sender now (with_history_feature False s))) =
     messageHistory (snd (addMessage tx sender now (with_history_feature True s))) \<and>
   chatWindow (snd (addMessage tx sender now (with_history_feature False s))) =
     chatWindow (snd (addMessage tx sender now (with_history_feature True s))) \<and>
   pushed (snd (addMessage tx sender now (with_history_feature False s))) =
     pushed (snd (addMessage tx sender now (with_history_feature True s))) \<and>
   isProcessing (snd (addMessage tx sender now (with_history_feature False s))) =
     isProcessing (snd (addMessage tx sender now (with_history_feature True s)))"
  using addMessage_feature_independent [of tx sender now False s]
    addMessage_feature_independent [of tx sender now True s]
  by (simp add: saveMessageHistory_def loadMessageHistory_def addMessage_feature_off)

theorem history_feature_disabled_witness:
  "\<not> enableMessageHistory (features (config (with_history_feature False example_genie))) \<and>
   saveMessageHistory (with_history_feature False example_genie) =
     with_history_feature False example_genie \<and>
   loadMessageHistory (with_history_feature False example_genie) =
     with_history_feature False example_genie \<and>
   localStorage (snd (addMessage (JStr (js ''hi'')) User 1
                        (with_history_feature False example_genie))) =
     localStorage example_genie"
  using history_feature_disabled [where s = "with_history_feature False example_genie"
      and tx = "JStr (js ''hi'')" and sender = User and now = 1]
  by (simp add: with_history_feature_def)

lemma init_initialized: "(\<exists>s. init cfg w = Initialized s) \<longleftrightarrow> elements_present (document w)"
  by (auto simp add: init_def elements_present_def split: option.splits)

text \<open>
  C4, as the specification states it: with a configuration whose reply set is empty, or
  whose delay range has its minimum above its maximum, the constructor does not
  initialize the controller. It fails for the configuration \<open>misconfigured\<close> on a page that
  has the required elements.
\<close>

theorem misconfiguration_counterexample:
  "\<not> (\<forall>w cfg. GenieConfig w = Some cfg \<and>
         (replies (responses cfg) = [] \<or>
          delay_max (delay (responses cfg)) < delay_min (delay (responses cfg))) \<longrightarrow>
         (\<forall>s. constructor w \<noteq> Initialized s))"
proof
  assume a: "\<forall>w cfg. GenieConfig w = Some cfg \<and>
         (replies (responses cfg) = [] \<or>
          delay_max (delay (responses cfg)) < delay_min (delay (responses cfg))) \<longrightarrow>
         (\<forall>s. constructor w \<noteq> Initialized s)"
  define w where "w = example_window\<lparr>GenieConfig := Some misconfigured\<rparr>"
  have "GenieConfig w = Some misconfigured \<and> replies (responses misconfigured) = []"
    by (simp add: w_def misconfigured_def)
  with a have n: "\<forall>s. constructor w \<noteq> Initialized s" by blast
  have "elements_present (document w)"
    by (simp add: w_def elements_present_def example_window_def example_page_def)
  then obtain s where "init misconfigured w = Initialized s"
    using init_initialized by blast
  then have "constructor w = Initialized s" by (simp add: constructor_def w_def)
  with n show False by blast
qed

text \<open>
  C4, amended. The constructor and \<open>init\<close> never inspect the reply set or the delay range:
  the controller is initialized exactly when \<open>window.GenieConfig\<close> is there and the page has
  the three required elements, whatever the configuration holds; without a configuration
  the constructor returns before \<open>init\<close>.
\<close>

theorem initialization_ignores_replies_and_delay:
  "((\<exists>s. constructor w = Initialized s) \<longleftrightarrow>
      GenieConfig w \<noteq> None \<and> elements_present (document w)) \<and>
   (constructor w = NotConfigured \<longleftrightarrow> GenieConfig w = None) \<and>
   ((\<exists>s. constructor (w\<lparr>GenieConfig := Some cfg\<rparr>) = Initialized s) \<longleftrightarrow>
      elements_present (document w))"
proof -
  have i: "init c w \<noteq> NotConfigured" for c w
    by (simp add: init_def split: option.splits)
  have 1: "(\<exists>s. constructor w = Initialized s) \<longleftrightarrow>
      GenieConfig w \<noteq> None \<and> elements_present (document w)"
    using init_initialized by (cases "GenieConfig w") (simp_all add: constructor_def)
  have 2: "constructor w = NotConfigured \<longleftrightarrow> GenieConfig w = None"
    using i by (cases "GenieConfig w") (simp_all add: constructor_def)
  have 3: "(\<exists>s. constructor (w\<lparr>GenieConfig := Some cfg\<rparr>) = Initialized s) \<longleftrightarrow>
      elements_present (document w)"
    using init_initialized [of cfg "w\<lparr>GenieConfig := Some cfg\<rparr>"] by (simp add: constructor_def)
  from 1 2 3 show ?thesis by blast
qed

theorem initialization_ignores_replies_and_delay_witness:
  "replies (responses misconfigured) = [] \<and>
   delay_max (delay (responses misconfigured)) < delay_min (delay (responses misconfigured)) \<and>
   elements_present (document example_window) \<and>
   (\<exists>s. constructor (example_window\<lparr>GenieConfig := Some misconfigured\<rparr>) = Initialized s) \<and>
   (\<exists>s. constructor example_window = Initialized s) \<and>
   constructor (example_window\<lparr>GenieConfig := None\<rparr>) = NotConfigured"
  using initialization_ignores_replies_and_delay [of example_window misconfigured]
    initialization_ignores_replies_and_delay [of "example_window\<lparr>GenieConfig := None\<rparr>" misconfigured]
  by (simp add: misconfigured_def elements_present_def example_window_def example_page_def)

section \<open>JSON round trip of the message history\<close>






lemma lex_string_plain:
  "c \<noteq> 0x22 \<Longrightarrow> c \<noteq> 0x5C \<Longrightarrow> \<not> c < 0x20 \<Longrightarrow>
   lex_step c (ts, LString acc) = (ts, LString (acc @ [c]))"
  by simp

lemma lex_string_escape:
  "lex_escape e = Some d \<Longrightarrow> e \<noteq> 0x75 \<Longrightarrow>
   fold lex_step [0x5C, e] (ts, LString acc) = (ts, LString (acc @ [d]))"
  by simp





























section \<open>Restoring the history\<close>

lemma first_session_persists:
  "items (localStorage (run first_session example_genie)) = [(history_key, stored_payload)]"
  by code_simp

text \<open>
  C1, at a failing input. The configuration limits the history to 2 messages. The first
  session stores its two messages; the second session restores them, its chat window is
  empty, and after one more message of the user \<open>messageHistory\<close> holds 3 messages:
  \<open>enforceMessageLimit\<close> compares the limit with the elements of the chat window (there is
  one), not with the length of the history.
\<close>

theorem restored_history_exceeds_limit:
  "(case constructor second_window of
      Initialized s \<Rightarrow>
        messageLimit (ui (config s)) = 2 \<and>
        messageHistory s = JArr restored_messages \<and>
        messageHistory (run second_session s) =
          JArr (restored_messages @ [new_message (JStr (js ''b'')) User 3])
    | _ \<Rightarrow> False)"
  by code_simp






end
